theory Spec2Isabelle
  imports Complex_Main
begin

section \<open>Exceptions\<close>

text \<open>
  Every exception that \<^verbatim>\<open>bentoml/sklearn.py\<close> can raise, or let through from the
  interpreter and from its collaborators, is a value of \<open>error\<close>; a computation that may
  raise returns \<open>error + 'a\<close>, with \<open>Inl\<close> for the exception.
\<close>

datatype error =
    NameError string
  | IndexError
  | AttributeError string
  | TypeError
  | ValueError
  | OverflowError
  | BentoMLException string
  | NotFound string
  | ArtifactCorrupt

section \<open>Python floats and the builtin \<^verbatim>\<open>round\<close>\<close>

text \<open>
  A Python float is a finite binary fraction, an infinity or a NaN. Every finite float is
  a rational number, and one-argument \<^verbatim>\<open>round\<close> is exact on it (it involves no
  rounding error: \<^verbatim>\<open>x - round(x)\<close> and \<^verbatim>\<open>x / 2.0\<close> are representable
  whenever \<^verbatim>\<open>x\<close> has a fractional part), so finite floats are modelled by
  \<open>rat\<close>.
\<close>

datatype pyfloat = Finite rat | PosInf | NegInf | NaN

text \<open>C's \<^verbatim>\<open>round\<close>: to the nearest integer, halfway cases away from zero.\<close>

definition c_round :: "rat \<Rightarrow> int" where
  "c_round x = (if 0 \<le> x then \<lfloor>x + 1 / 2\<rfloor> else \<lceil>x - 1 / 2\<rceil>)"

text \<open>
  \<^verbatim>\<open>float.__round__\<close> without \<^verbatim>\<open>ndigits\<close>, as CPython computes it:
  \<^verbatim>\<open>
  rounded = round(x);
  if (fabs(x - rounded) == 0.5)
      rounded = 2.0 * round(x / 2.0);     /* halfway case: round to even */
  return PyLong_FromDouble(rounded);
  \<close>
\<close>

definition float_round :: "rat \<Rightarrow> int" where
  "float_round x =
     (let rounded = c_round x
      in if \<bar>x - of_int rounded\<bar> = 1 / 2 then 2 * c_round (x / 2) else rounded)"

text \<open>
  The builtin \<^verbatim>\<open>round(x)\<close>: \<^verbatim>\<open>PyLong_FromDouble\<close> raises OverflowError on an
  infinity and ValueError on a NaN.
\<close>

fun round_builtin :: "pyfloat \<Rightarrow> error + int" where
  "round_builtin (Finite x) = Inr (float_round x)"
| "round_builtin PosInf = Inl OverflowError"
| "round_builtin NegInf = Inl OverflowError"
| "round_builtin NaN = Inl ValueError"

text \<open>
  Rounding to the nearest integer with ties to the even neighbour, as a relation between
  a number and an integer: the reading of "rounded to the nearest integer" that Python's
  \<^verbatim>\<open>round\<close> documents.
\<close>

definition nearest_even :: "rat \<Rightarrow> int \<Rightarrow> bool" where
  "nearest_even x n \<longleftrightarrow>
     \<bar>of_int n - x\<bar> \<le> 1 / 2 \<and> (\<bar>of_int n - x\<bar> < 1 / 2 \<or> even n)"

section \<open>Resource quota and the runner's plan\<close>

record ResourceQuota =
  cpu :: pyfloat
  gpus :: "int list"

text \<open>
  Modelled from the spec: the base class \<^verbatim>\<open>Runner\<close> of
  \<^verbatim>\<open>bentoml._internal.service.runner\<close> is not among the sources. The spec gives its
  construction contract as \<^verbatim>\<open>new Runner(tag, resource_quota, batch_options)\<close>, says
  of the quota that it is "supplied by the caller at Runner construction; immutable for
  the Runner's lifetime", and of a replica that it is "identified by an integer id in
  \<^verbatim>\<open>[0, num_replica)\<close>". The subclass reads \<^verbatim>\<open>self.resource_quota\<close> and
  \<^verbatim>\<open>self.replica_id\<close>.
\<close>

record Runner =
  runner_tag :: string
  resource_quota :: ResourceQuota
  batch_options :: "(string \<times> string) list"
  replica_id :: int

text \<open>
  \<^verbatim>\<open>
  @property
  def num_concurrency_per_replica(self) -> int:
      return int(round(self.resource_quota.cpu))

  @property
  def num_replica(self) -> int:
      return 1
  \<close>
  \<^verbatim>\<open>round\<close> of a float is already an \<^verbatim>\<open>int\<close>, which \<^verbatim>\<open>int\<close> returns as it is.
\<close>

definition num_concurrency_per_replica :: "'a Runner_scheme \<Rightarrow> error + int" where
  "num_concurrency_per_replica self = round_builtin (cpu (resource_quota self))"

definition num_replica :: "'a Runner_scheme \<Rightarrow> int" where
  "num_replica self = 1"

section \<open>The module's namespace\<close>

text \<open>
  \<^verbatim>\<open>__name__\<close> of the module \<^verbatim>\<open>bentoml/sklearn.py\<close>.
\<close>

definition adapter_module :: string where
  "adapter_module = ''bentoml.sklearn''"

text \<open>
  What the world outside the module provides: the constant \<^verbatim>\<open>SAVE_NAMESPACE\<close> of
  \<^verbatim>\<open>bentoml._internal.models\<close>, the \<^verbatim>\<open>__version__\<close> attribute of an installed
  library, joblib's \<^verbatim>\<open>load\<close> and \<^verbatim>\<open>dump\<close> over a file system \<open>'fs\<close> (a dump
  that fails may leave a partial file behind, so it returns the file system either way),
  and the model store's choice of a version and a directory for a new registration.
\<close>

record registration =
  reg_path :: string
  reg_tag :: string

record ModelInfo =
  tag :: string
  module :: string
  path :: string
  metadata :: "(string \<times> string) list option"
  framework_context :: "(string \<times> string) list"

type_synonym ModelStore = "string \<rightharpoonup> ModelInfo"

record ('m, 'fs) env =
  SAVE_NAMESPACE :: string
  lib_version :: "string \<Rightarrow> string"
  joblib_load :: "'fs \<Rightarrow> string \<Rightarrow> error + 'm"
  joblib_dump :: "'m \<Rightarrow> string \<Rightarrow> 'fs \<Rightarrow> error option \<times> 'fs"
  allocate :: "ModelStore \<Rightarrow> string \<Rightarrow> error + registration"

text \<open>
  The names bound in the module's global namespace once its import has finished, in the
  order of their binding. \<^verbatim>\<open>import sklearn.externals.joblib as joblib\<close> binds the
  name \<^verbatim>\<open>joblib\<close> only; the imports under \<^verbatim>\<open>t.TYPE_CHECKING\<close> do not run.
\<close>

datatype binding = Module string | Str string | Other

definition module_globals :: "('m, 'fs) env \<Rightarrow> (string \<times> binding) list" where
  "module_globals env =
     [(''__name__'', Str adapter_module),
      (''os'', Module ''os''),
      (''t'', Module ''typing''),
      (''np'', Module ''numpy''),
      (''Provide'', Other),
      (''inject'', Other),
      (''BentoMLContainer'', Other),
      (''MODEL_EXT'', Other),
      (''SAVE_NAMESPACE'', Str (SAVE_NAMESPACE env)),
      (''Runner'', Other),
      (''BentoMLException'', Other),
      (''MissingDependencyException'', Other),
      (''_MT'', Other),
      (''joblib'', Module ''sklearn.externals.joblib''),
      (''parallel_backend'', Other),
      (''_get_model_info'', Other),
      (''load'', Other),
      (''save'', Other),
      (''_SklearnRunner'', Other),
      (''load_runner'', Other)]"

text \<open>
  Reading a global name inside a function body: a name that is not bound (and is no
  builtin) raises NameError when the line runs.
\<close>

definition load_global :: "('m, 'fs) env \<Rightarrow> string \<Rightarrow> error + binding" where
  "load_global env nm =
     (case map_of (module_globals env) nm of
        None \<Rightarrow> Inl (NameError nm)
      | Some b \<Rightarrow> Inr b)"

section \<open>Library functions\<close>

text \<open>
  \<^verbatim>\<open>os.path.join(a, b)\<close> (POSIX):
  \<^verbatim>\<open>
  if b.startswith('/'):                 path = b
  elif not path or path.endswith('/'):  path += b
  else:                                 path += '/' + b
  \<close>
\<close>

definition os_path_join :: "string \<Rightarrow> string \<Rightarrow> string" where
  "os_path_join a b =
     (if b \<noteq> [] \<and> hd b = CHR ''/'' then b
      else if a = [] \<or> last a = CHR ''/'' then a @ b
      else a @ ''/'' @ b)"

text \<open>
  Python's \<^verbatim>\<open>xs[i]\<close> on a list, as \<^verbatim>\<open>list_subscript\<close> does it: the length is
  added to a negative index once, and an index still outside the list raises IndexError.
\<close>

definition list_getitem :: "'a list \<Rightarrow> int \<Rightarrow> error + 'a" where
  "list_getitem xs i =
     (let j = (if i < 0 then i + int (length xs) else i)
      in if j < 0 \<or> int (length xs) \<le> j then Inl IndexError else Inr (xs ! nat j))"

section \<open>The model store\<close>

text \<open>
  Modelled from the spec: the class \<^verbatim>\<open>ModelStore\<close> of
  \<^verbatim>\<open>bentoml._internal.models.store\<close> is not among the sources. The spec gives its
  contract: "\<^verbatim>\<open>resolve(tag) -> ModelInfo\<close> (fails with \<^verbatim>\<open>NotFound\<close> if tag
  unknown)", which the module calls as \<^verbatim>\<open>model_store.get(tag)\<close>.
\<close>

definition ModelStore_get :: "ModelStore \<Rightarrow> string \<Rightarrow> error + ModelInfo" where
  "ModelStore_get st tg = (case st tg of None \<Rightarrow> Inl (NotFound tg) | Some info \<Rightarrow> Inr info)"

text \<open>
  Modelled from the spec: \<^verbatim>\<open>ModelStore.register\<close> is not among the sources. The
  spec: "\<^verbatim>\<open>register(name, module, metadata, framework_context)\<close> -> scoped transaction
  yielding \<^verbatim>\<open>{path, tag}\<close>, committing the tag only if the scope exits without
  failure". Entering the scope asks the store for a version and a directory; leaving it
  records the ModelInfo under the new tag unless the body raised.
\<close>

definition ModelStore_register_enter ::
    "('m, 'fs) env \<Rightarrow> ModelStore \<Rightarrow> string \<Rightarrow> error + registration" where
  "ModelStore_register_enter env st name = allocate env st name"

definition ModelStore_register_exit ::
    "ModelStore \<Rightarrow> ModelInfo \<Rightarrow> bool \<Rightarrow> ModelStore" where
  "ModelStore_register_exit st info raised = (if raised then st else st(tag info \<mapsto> info))"

section \<open>The adapter functions\<close>

text \<open>
  \<^verbatim>\<open>
  def _get_model_info(tag, model_store):
      model_info = model_store.get(tag)
      if model_info.module != __name__:
          raise BentoMLException(
              f"Model {tag} was saved with module {model_info.module}, failed loading "
              f"with {__name__}."
          )
      model_file = os.path.join(model_info.path, f"{SAVE_NAMESPACE}.pkl")
      return model_info, model_file
  \<close>
\<close>

definition get_model_info ::
    "('m, 'fs) env \<Rightarrow> string \<Rightarrow> ModelStore \<Rightarrow> error + ModelInfo \<times> string" where
  "get_model_info env tg model_store =
     (case ModelStore_get model_store tg of
        Inl e \<Rightarrow> Inl e
      | Inr model_info \<Rightarrow>
          if module model_info \<noteq> adapter_module
          then Inl (BentoMLException
                 (''Model '' @ tg @ '' was saved with module '' @ module model_info
                    @ '', failed loading with '' @ adapter_module @ ''.''))
          else Inr (model_info, os_path_join (path model_info) (SAVE_NAMESPACE env @ ''.pkl'')))"

text \<open>
  \<^verbatim>\<open>
  def load(tag, model_store):
      _, model_file = _get_model_info(tag, model_store)
      return joblib.load(filename=model_file)
  \<close>
\<close>

definition load :: "('m, 'fs) env \<Rightarrow> string \<Rightarrow> ModelStore \<Rightarrow> 'fs \<Rightarrow> error + 'm" where
  "load env tg model_store fs =
     (case get_model_info env tg model_store of
        Inl e \<Rightarrow> Inl e
      | Inr (model_info, model_file) \<Rightarrow> joblib_load env fs model_file)"

text \<open>
  The \<^verbatim>\<open>with\<close> block of \<^verbatim>\<open>save\<close>, for a framework context already built:
  \<^verbatim>\<open>
  with model_store.register(name, module=__name__, metadata=metadata,
                            framework_context=context) as ctx:
      joblib.dump(model, os.path.join(ctx.path, f"{SAVE_NAMESPACE}.pkl"))
      return ctx.tag
  \<close>
  The state is the store together with the file system.
\<close>

definition save_registration ::
    "('m, 'fs) env \<Rightarrow> string \<Rightarrow> 'm \<Rightarrow> (string \<times> string) list option \<Rightarrow> (string \<times> string) list
      \<Rightarrow> ModelStore \<times> 'fs \<Rightarrow> (error + string) \<times> ModelStore \<times> 'fs" where
  "save_registration env name model md context w =
     (case w of (model_store, fs) \<Rightarrow>
        (case ModelStore_register_enter env model_store name of
           Inl e \<Rightarrow> (Inl e, model_store, fs)
         | Inr ctx \<Rightarrow>
             (let info = \<lparr>tag = reg_tag ctx, module = adapter_module, path = reg_path ctx,
                          metadata = md, framework_context = context\<rparr>
              in case joblib_dump env model
                        (os_path_join (reg_path ctx) (SAVE_NAMESPACE env @ ''.pkl'')) fs of
                   (Some e, fs') \<Rightarrow> (Inl e, ModelStore_register_exit model_store info True, fs')
                 | (None, fs') \<Rightarrow>
                     (Inr (reg_tag ctx), ModelStore_register_exit model_store info False, fs'))))"

text \<open>
  \<^verbatim>\<open>
  def save(name, model, *, metadata=None, model_store):
      context = {"sklearn": sklearn.__version__}
      with model_store.register(...) as ctx:
          ...
  \<close>
  The first line reads the global name \<^verbatim>\<open>sklearn\<close>.
\<close>

definition save ::
    "('m, 'fs) env \<Rightarrow> string \<Rightarrow> 'm \<Rightarrow> (string \<times> string) list option
      \<Rightarrow> ModelStore \<times> 'fs \<Rightarrow> (error + string) \<times> ModelStore \<times> 'fs" where
  "save env name model md w =
     (case load_global env ''sklearn'' of
        Inl e \<Rightarrow> (Inl e, w)
      | Inr (Module m) \<Rightarrow>
          save_registration env name model md [(''sklearn'', lib_version env m)] w
      | Inr _ \<Rightarrow> (Inl (AttributeError ''__version__''), w))"

section \<open>joblib's backend scope\<close>

text \<open>
  \<^verbatim>\<open>joblib.parallel_backend\<close> belongs to a third-party library. Its objects work on
  the library's thread-local setting \<^verbatim>\<open>_backend.backend_and_jobs\<close>, which is what a
  predictor's inference reads to size its worker pool; no setting means the library's
  default backend. The class, as joblib ships it:
  \<^verbatim>\<open>
  class parallel_backend(object):
      def __init__(self, backend, n_jobs=-1, ...):
          ...
          self.old_backend_and_jobs = getattr(_backend, 'backend_and_jobs', None)
          self.new_backend_and_jobs = (backend, n_jobs)
          _backend.backend_and_jobs = (backend, n_jobs)
      def __enter__(self):
          return self.new_backend_and_jobs
      def __exit__(self, type, value, traceback):
          self.unregister()
      def unregister(self):
          if self.old_backend_and_jobs is None:
              if getattr(_backend, 'backend_and_jobs', None) is not None:
                  del _backend.backend_and_jobs
          else:
              _backend.backend_and_jobs = self.old_backend_and_jobs
  \<close>
  The run-time state holds that setting and a log of what happened, in order: a scope
  entered, an inference run (with the setting in force while it ran), a scope left.
\<close>

datatype event = Enter | Inference "(string \<times> int) option" | Exit

record runtime =
  backend_and_jobs :: "(string \<times> int) option"
  events :: "event list"

record parallel_backend =
  old_backend_and_jobs :: "(string \<times> int) option"
  new_backend_and_jobs :: "(string \<times> int) option"

definition parallel_backend_init ::
    "string \<Rightarrow> int \<Rightarrow> runtime \<Rightarrow> parallel_backend \<times> runtime" where
  "parallel_backend_init backend n_jobs rt =
     (\<lparr>old_backend_and_jobs = backend_and_jobs rt,
       new_backend_and_jobs = Some (backend, n_jobs)\<rparr>,
      rt\<lparr>backend_and_jobs := Some (backend, n_jobs)\<rparr>)"

definition parallel_backend_enter :: "parallel_backend \<Rightarrow> runtime \<Rightarrow> runtime" where
  "parallel_backend_enter ctx rt = rt\<lparr>events := events rt @ [Enter]\<rparr>"

definition parallel_backend_exit :: "parallel_backend \<Rightarrow> runtime \<Rightarrow> runtime" where
  "parallel_backend_exit ctx rt =
     rt\<lparr>backend_and_jobs := old_backend_and_jobs ctx, events := events rt @ [Exit]\<rparr>"

section \<open>The runner\<close>

text \<open>
  A predictor is an object with a \<^verbatim>\<open>predict\<close> method from a batch of rows to a batch
  of results; the model identifies it with that method. \<^verbatim>\<open>_model\<close> is \<open>None\<close> as
  long as the attribute has not been assigned.
\<close>

type_synonym ('x, 'y) predictor = "'x list \<Rightarrow> error + 'y list"

record ('x, 'y) SklearnRunner = Runner +
  model_info :: ModelInfo
  model_file :: string
  parallel_ctx :: parallel_backend
  model :: "('x, 'y) predictor option"

text \<open>
  \<^verbatim>\<open>
  def __init__(self, tag, resource_quota, batch_options, model_store):
      super().__init__(tag, resource_quota, batch_options)
      model_info, model_file = _get_model_info(tag, model_store)
      self._model_info = model_info
      self._model_file = model_file
      self._parallel_ctx = parallel_backend(
          "threading", n_jobs=self.num_concurrency_per_replica
      )
  \<close>
  \<open>rid\<close> is the replica slot that the serving runtime gives the instance.
\<close>

definition SklearnRunner_init ::
    "(('x, 'y) predictor, 'fs) env \<Rightarrow> string \<Rightarrow> ResourceQuota \<Rightarrow> (string \<times> string) list \<Rightarrow> int
      \<Rightarrow> ModelStore \<Rightarrow> runtime \<Rightarrow> (error + ('x, 'y) SklearnRunner) \<times> runtime" where
  "SklearnRunner_init env tg rq bo rid model_store rt =
     (let self = \<lparr>runner_tag = tg, resource_quota = rq, batch_options = bo, replica_id = rid\<rparr>
      in case get_model_info env tg model_store of
           Inl e \<Rightarrow> (Inl e, rt)
         | Inr (info, file) \<Rightarrow>
             (case num_concurrency_per_replica self of
                Inl e \<Rightarrow> (Inl e, rt)
              | Inr n \<Rightarrow>
                  (case parallel_backend_init ''threading'' n rt of
                     (ctx, rt') \<Rightarrow>
                       (Inr \<lparr>runner_tag = tg, resource_quota = rq, batch_options = bo,
                             replica_id = rid, model_info = info, model_file = file,
                             parallel_ctx = ctx, model = None\<rparr>, rt'))))"

text \<open>
  \<^verbatim>\<open>
  @property
  def required_models(self):
      return [self._model_info.tag]
  \<close>
\<close>

definition required_models :: "('x, 'y) SklearnRunner \<Rightarrow> string list" where
  "required_models self = [tag (model_info self)]"

text \<open>
  \<^verbatim>\<open>
  def _setup(self) -> None:
      gpu_device_id = self.resource_quota.gpus[self.replica_id]

      self._model = joblib.load(filename=model_file)
  \<close>
  The second line reads the global name \<^verbatim>\<open>model_file\<close>, not the attribute
  \<^verbatim>\<open>self._model_file\<close>.
\<close>

definition SklearnRunner_setup ::
    "(('x, 'y) predictor, 'fs) env \<Rightarrow> ('x, 'y) SklearnRunner \<Rightarrow> 'fs
      \<Rightarrow> error + ('x, 'y) SklearnRunner" where
  "SklearnRunner_setup env self fs =
     (case list_getitem (gpus (resource_quota self)) (replica_id self) of
        Inl e \<Rightarrow> Inl e
      | Inr gpu_device_id \<Rightarrow>
          (case load_global env ''model_file'' of
             Inl e \<Rightarrow> Inl e
           | Inr (Str filename) \<Rightarrow>
               (case joblib_load env fs filename of
                  Inl e \<Rightarrow> Inl e
                | Inr m \<Rightarrow> Inr (self\<lparr>model := Some m\<rparr>))
           | Inr _ \<Rightarrow> Inl TypeError))"

text \<open>
  \<^verbatim>\<open>
  def _run_batch(self, input_data):
      with self._parallel_ctx:
          return self._model.predict(input_data)
  \<close>
  \<^verbatim>\<open>__exit__\<close> runs whether the body returned or raised, and returns nothing, so an
  exception of the body goes on to the caller.
\<close>

definition SklearnRunner_run_batch ::
    "('x, 'y) SklearnRunner \<Rightarrow> 'x list \<Rightarrow> runtime \<Rightarrow> (error + 'y list) \<times> runtime" where
  "SklearnRunner_run_batch self input_data rt =
     (let rt1 = parallel_backend_enter (parallel_ctx self) rt;
          (res, rt2) =
            (case model self of
               None \<Rightarrow> (Inl (AttributeError ''_model''), rt1)
             | Some m \<Rightarrow>
                 (m input_data, rt1\<lparr>events := events rt1 @ [Inference (backend_and_jobs rt1)]\<rparr>))
      in (res, parallel_backend_exit (parallel_ctx self) rt2))"

text \<open>
  \<^verbatim>\<open>
  def load_runner(tag, *, resource_quota, batch_options, model_store):
      return _SklearnRunner(tag=tag, resource_quota=resource_quota,
                            batch_options=batch_options, model_store=model_store)
  \<close>
\<close>

definition load_runner ::
    "(('x, 'y) predictor, 'fs) env \<Rightarrow> string \<Rightarrow> ResourceQuota \<Rightarrow> (string \<times> string) list \<Rightarrow> int
      \<Rightarrow> ModelStore \<Rightarrow> runtime \<Rightarrow> (error + ('x, 'y) SklearnRunner) \<times> runtime" where
  "load_runner env tg rq bo rid model_store rt =
     SklearnRunner_init env tg rq bo rid model_store rt"

section \<open>Example values\<close>

text \<open>
  A small world to run the definitions in: predictors over integer rows, a file system
  that maps a path to the predictor pickled there, a store with one model of this adapter
  and one of another, and a codec that never fails next to one whose dump always does.
\<close>

definition double_rows :: "(int, int) predictor" where
  "double_rows xs = Inr (map (\<lambda>x. 2 * x) xs)"

definition example_env :: "((int, int) predictor, string \<rightharpoonup> (int, int) predictor) env" where
  "example_env =
     \<lparr>SAVE_NAMESPACE = ''saved_model'',
      lib_version = (\<lambda>m. ''0.24.2''),
      joblib_load = (\<lambda>fs f. case fs f of None \<Rightarrow> Inl ArtifactCorrupt | Some m \<Rightarrow> Inr m),
      joblib_dump = (\<lambda>m f fs. (None, fs(f \<mapsto> m))),
      allocate = (\<lambda>st name. Inr \<lparr>reg_path = ''/store/'' @ name @ ''/v1'',
                                  reg_tag = name @ '':v1''\<rparr>)\<rparr>"


definition iris_info :: ModelInfo where
  "iris_info =
     \<lparr>tag = ''iris:v1'', module = ''bentoml.sklearn'', path = ''/store/iris/v1'',
      metadata = None, framework_context = [(''sklearn'', ''0.24.2'')]\<rparr>"

definition net_info :: ModelInfo where
  "net_info =
     \<lparr>tag = ''net:v1'', module = ''bentoml.pytorch'', path = ''/store/net/v1'',
      metadata = None, framework_context = []\<rparr>"

definition example_store :: ModelStore where
  "example_store = [''iris:v1'' \<mapsto> iris_info, ''net:v1'' \<mapsto> net_info]"

definition example_fs :: "string \<rightharpoonup> (int, int) predictor" where
  "example_fs = [''/store/iris/v1/saved_model.pkl'' \<mapsto> double_rows]"

definition idle :: runtime where
  "idle = \<lparr>backend_and_jobs = None, events = []\<rparr>"

definition example_runner :: "pyfloat \<Rightarrow> (int, int) SklearnRunner" where
  "example_runner c =
     \<lparr>runner_tag = ''iris:v1'', resource_quota = \<lparr>cpu = c, gpus = []\<rparr>,
      batch_options = [], replica_id = 0,
      model_info = iris_info,
      model_file = ''/store/iris/v1/saved_model.pkl'',
      parallel_ctx = \<lparr>old_backend_and_jobs = None,
                       new_backend_and_jobs = Some (''threading'', 2)\<rparr>,
      model = Some double_rows\<rparr>"

text \<open>Two batch calls on the same runner, one after the other.\<close>

definition two_batches ::
    "('x, 'y) SklearnRunner \<Rightarrow> 'x list \<Rightarrow> 'x list \<Rightarrow> runtime \<Rightarrow> runtime" where
  "two_batches self xs ys rt =
     snd (SklearnRunner_run_batch self ys (snd (SklearnRunner_run_batch self xs rt)))"

section \<open>Rounding\<close>

lemma c_round_near: "\<bar>of_int (c_round x) - x\<bar> \<le> 1 / 2"
proof (cases "0 \<le> x")
  case True
  have "of_int \<lfloor>x + 1 / 2\<rfloor> \<le> x + 1 / 2" and "x + 1 / 2 < of_int \<lfloor>x + 1 / 2\<rfloor> + 1"
    by linarith+
  then have "\<bar>of_int \<lfloor>x + 1 / 2\<rfloor> - x\<bar> \<le> 1 / 2" by linarith
  with True show ?thesis by (simp add: c_round_def)
next
  case False
  have "x - 1 / 2 \<le> of_int \<lceil>x - 1 / 2\<rceil>" and "of_int \<lceil>x - 1 / 2\<rceil> < x - 1 / 2 + 1"
    by linarith+
  then have "\<bar>of_int \<lceil>x - 1 / 2\<rceil> - x\<bar> \<le> 1 / 2" by linarith
  with False show ?thesis by (simp add: c_round_def)
qed

lemma c_round_quarter: "c_round (of_int j + 1 / 4) = j"
proof (cases "(0::rat) \<le> of_int j + 1 / 4")
  case True
  have "\<lfloor>(of_int j + 1 / 4 + 1 / 2 :: rat)\<rfloor> = j"
    by (rule floor_unique) simp_all
  with True show ?thesis by (simp add: c_round_def)
next
  case False
  have "\<lceil>(of_int j + 1 / 4 - 1 / 2 :: rat)\<rceil> = j"
    by (rule ceiling_unique) simp_all
  with False show ?thesis by (simp add: c_round_def)
qed

lemma c_round_three_quarters: "c_round (of_int j + 3 / 4) = j + 1"
proof (cases "(0::rat) \<le> of_int j + 3 / 4")
  case True
  have "\<lfloor>(of_int j + 3 / 4 + 1 / 2 :: rat)\<rfloor> = j + 1"
    by (rule floor_unique) simp_all
  with True show ?thesis by (simp add: c_round_def)
next
  case False
  have "\<lceil>(of_int j + 3 / 4 - 1 / 2 :: rat)\<rceil> = j + 1"
    by (rule ceiling_unique) simp_all
  with False show ?thesis by (simp add: c_round_def)
qed

text \<open>A number at distance one half from an integer is an integer plus one half.\<close>

lemma halfway_form:
  assumes "\<bar>x - of_int r\<bar> = (1 / 2 :: rat)"
  obtains k :: int where "x = of_int k + 1 / 2"
proof -
  from assms consider "x - of_int r = 1 / 2" | "x - of_int r = - (1 / 2)"
    by (auto simp: abs_if split: if_splits)
  then show thesis
  proof cases
    case 1
    then have "x = of_int r + 1 / 2" by simp
    then show thesis by (rule that)
  next
    case 2
    then have "x = of_int (r - 1) + 1 / 2" by simp
    then show thesis by (rule that)
  qed
qed

lemma float_round_half: "float_round (of_int k + 1 / 2) = (if even k then k else k + 1)"
proof -
  have half: "\<bar>(of_int k + 1 / 2 :: rat) - of_int (c_round (of_int k + 1 / 2))\<bar> = 1 / 2"
  proof (cases "(0::rat) \<le> of_int k + 1 / 2")
    case True
    have "\<lfloor>(of_int k + 1 / 2 + 1 / 2 :: rat)\<rfloor> = k + 1"
      by (rule floor_unique) simp_all
    with True show ?thesis by (simp add: c_round_def)
  next
    case False
    have "\<lceil>(of_int k + 1 / 2 - 1 / 2 :: rat)\<rceil> = k"
      by simp
    with False show ?thesis by (simp add: c_round_def)
  qed
  show ?thesis
  proof (cases "even k")
    case True
    then obtain j where k: "k = 2 * j" by (elim evenE)
    have "(of_int k + 1 / 2 :: rat) / 2 = of_int j + 1 / 4" by (simp add: k)
    then have "c_round ((of_int k + 1 / 2) / 2) = j" by (simp only: c_round_quarter)
    with half True k show ?thesis by (simp add: float_round_def Let_def)
  next
    case False
    then obtain j where k: "k = 2 * j + 1" by (elim oddE)
    have "(of_int k + 1 / 2 :: rat) / 2 = of_int j + 3 / 4" by (simp add: k)
    then have "c_round ((of_int k + 1 / 2) / 2) = j + 1"
      by (simp only: c_round_three_quarters)
    with half False k show ?thesis by (simp add: float_round_def Let_def)
  qed
qed

lemma float_round_nearest_even: "nearest_even x (float_round x)"
proof (cases "\<bar>x - of_int (c_round x)\<bar> = 1 / 2")
  case True
  then obtain k :: int where x: "x = of_int k + 1 / 2" by (rule halfway_form)
  show ?thesis
    unfolding x float_round_half nearest_even_def by simp
next
  case False
  with c_round_near [of x] have "\<bar>of_int (c_round x) - x\<bar> < 1 / 2"
    by (simp add: abs_minus_commute)
  with False show ?thesis
    by (simp add: float_round_def Let_def nearest_even_def)
qed

lemma nearest_even_unique:
  assumes "nearest_even x n" and "nearest_even x m"
  shows "n = m"
proof (rule ccontr)
  assume neq: "n \<noteq> m"
  from assms have dn: "\<bar>of_int n - x\<bar> \<le> 1 / 2" and dm: "\<bar>of_int m - x\<bar> \<le> 1 / 2"
    by (simp_all add: nearest_even_def)
  have "\<bar>(of_int n :: rat) - of_int m\<bar> \<le> 1" using dn dm by linarith
  then have "\<bar>n - m\<bar> \<le> 1" by (metis of_int_diff of_int_abs of_int_le_1_iff)
  with neq consider "n = m + 1" | "m = n + 1" by linarith
  then show False
  proof cases
    case 1
    with dn dm have "\<bar>of_int n - x\<bar> = 1 / 2" "\<bar>of_int m - x\<bar> = 1 / 2"
      by (simp_all; linarith)+
    with assms have "even n" "even m" by (simp_all add: nearest_even_def)
    with 1 show False by simp
  next
    case 2
    with dn dm have "\<bar>of_int n - x\<bar> = 1 / 2" "\<bar>of_int m - x\<bar> = 1 / 2"
      by (simp_all; linarith)+
    with assms have "even n" "even m" by (simp_all add: nearest_even_def)
    with 2 show False by simp
  qed
qed

section \<open>The plan of a runner\<close>

text \<open>The constructor keeps the quota it is given.\<close>

lemma SklearnRunner_init_quota:
  assumes "SklearnRunner_init env tg rq bo rid model_store rt = (Inr self, rt')"
  shows "resource_quota self = rq"
  using assms
  by (auto simp: SklearnRunner_init_def Let_def split: sum.splits prod.splits)

text \<open>
  The constructor resolves the tag at once and loads nothing: an unknown tag fails there,
  and a runner that was built holds no model yet.
\<close>

lemma SklearnRunner_init_unknown_tag:
  assumes "model_store tg = None"
  shows "SklearnRunner_init env tg rq bo rid model_store rt = (Inl (NotFound tg), rt)"
  using assms
  by (simp add: SklearnRunner_init_def get_model_info_def ModelStore_get_def)

lemma SklearnRunner_init_defers_load:
  assumes "SklearnRunner_init env tg rq bo rid model_store rt = (Inr self, rt')"
  shows "model self = None"
  using assms
  by (auto simp: SklearnRunner_init_def Let_def split: sum.splits prod.splits)

text \<open>
  Claim C1. For every resource quota whose \<^verbatim>\<open>cpu\<close> is a finite number \<open>c\<close>, the
  runner's \<^verbatim>\<open>num_concurrency_per_replica\<close> is \<^verbatim>\<open>round(c)\<close>, which is the one
  integer nearest to \<open>c\<close> (the even one of two equally near), and its
  \<^verbatim>\<open>num_replica\<close> is 1.
\<close>

theorem num_concurrency_per_replica_is_round:
  assumes "cpu (resource_quota self) = Finite c"
  shows "num_concurrency_per_replica self = Inr (float_round c)
       \<and> nearest_even c (float_round c)
       \<and> (\<forall>n. nearest_even c n \<longrightarrow> n = float_round c)
       \<and> num_replica self = 1"
  using assms float_round_nearest_even [of c]
  by (auto simp: num_concurrency_per_replica_def num_replica_def
      intro: nearest_even_unique)

theorem num_concurrency_per_replica_is_round_witness:
  "num_concurrency_per_replica (example_runner (Finite (7 / 4))) = Inr 2
   \<and> num_replica (example_runner (Finite (7 / 4))) = 1"
proof -
  have c: "cpu (resource_quota (example_runner (Finite (7 / 4)))) = Finite (7 / 4)"
    by (simp add: example_runner_def)
  have r: "float_round (7 / 4) = 2" by code_simp
  from num_concurrency_per_replica_is_round [OF c] r show ?thesis by simp
qed

text \<open>
  Claim C10. \<^verbatim>\<open>int(round(cpu))\<close> rounds half to even: a \<^verbatim>\<open>cpu\<close> halfway between
  the integers \<open>k\<close> and \<open>k + 1\<close> gives the even one of the two; \<^verbatim>\<open>cpu = 0.5\<close> gives 0
  workers, a worker budget of zero from a positive quota, and \<^verbatim>\<open>cpu = 2.5\<close> gives 2.
\<close>

theorem half_cpu_rounds_to_even:
  "(cpu (resource_quota self) = Finite (of_int k + 1 / 2) \<longrightarrow>
      num_concurrency_per_replica self = Inr (if even k then k else k + 1))
   \<and> (cpu (resource_quota self) = Finite (1 / 2) \<longrightarrow>
        num_concurrency_per_replica self = Inr 0)
   \<and> (cpu (resource_quota self) = Finite (5 / 2) \<longrightarrow>
        num_concurrency_per_replica self = Inr 2)"
proof -
  have "float_round (1 / 2) = 0" using float_round_half [of 0] by simp
  moreover have "float_round (5 / 2) = 2" using float_round_half [of 2] by simp
  ultimately show ?thesis
    by (simp add: num_concurrency_per_replica_def float_round_half)
qed

theorem half_cpu_rounds_to_even_witness:
  "num_concurrency_per_replica (example_runner (Finite (1 / 2))) = Inr 0
   \<and> num_concurrency_per_replica (example_runner (Finite (5 / 2))) = Inr 2
   \<and> num_concurrency_per_replica (example_runner (Finite (7 / 2))) = Inr 4"
proof -
  have a: "cpu (resource_quota (example_runner (Finite c))) = Finite c" for c
    by (simp add: example_runner_def)
  have b: "(of_int 3 + 1 / 2 :: rat) = 7 / 2" by simp
  from half_cpu_rounds_to_even [of "example_runner (Finite (1 / 2))" 0]
       half_cpu_rounds_to_even [of "example_runner (Finite (5 / 2))" 0]
       half_cpu_rounds_to_even [of "example_runner (Finite (7 / 2))" 3]
  show ?thesis unfolding b by (simp add: a)
qed

section \<open>Names that are not bound\<close>

lemma load_global_sklearn: "load_global env ''sklearn'' = Inl (NameError ''sklearn'')"
  by (simp add: load_global_def module_globals_def)

lemma load_global_model_file:
  "load_global env ''model_file'' = Inl (NameError ''model_file'')"
  by (simp add: load_global_def module_globals_def)

lemma save_raises: "save env name mdl md w = (Inl (NameError ''sklearn''), w)"
  by (simp add: save_def load_global_sklearn)

section \<open>Loading\<close>

text \<open>
  Claim C4. For a tag that the store resolves: if the stored ModelInfo names another
  module than this adapter's, \<^verbatim>\<open>load\<close> raises the module-mismatch error (the
  BentoMLException that names both modules) and returns no model; if it names this
  module, \<^verbatim>\<open>load\<close> gives what joblib deserializes from the file \<^verbatim>\<open>SAVE_NAMESPACE\<close>
  \<^verbatim>\<open>.pkl\<close> in the model's directory.
\<close>

theorem load_checks_module:
  assumes "model_store tg = Some info"
  shows "(module info \<noteq> adapter_module \<longrightarrow>
            load env tg model_store fs =
              Inl (BentoMLException
                 (''Model '' @ tg @ '' was saved with module '' @ module info
                    @ '', failed loading with bentoml.sklearn.''))
            \<and> (\<forall>m. load env tg model_store fs \<noteq> Inr m))
       \<and> (module info = adapter_module \<longrightarrow>
            load env tg model_store fs =
              joblib_load env fs (os_path_join (path info) (SAVE_NAMESPACE env @ ''.pkl'')))"
  using assms
  by (simp add: load_def get_model_info_def ModelStore_get_def adapter_module_def)

theorem load_checks_module_witness:
  "load example_env ''net:v1'' example_store example_fs =
     Inl (BentoMLException
       ''Model net:v1 was saved with module bentoml.pytorch, failed loading with bentoml.sklearn.'')
   \<and> load example_env ''iris:v1'' example_store example_fs = Inr double_rows"
proof -
  have a: "example_store ''net:v1'' = Some net_info"
    by (simp add: example_store_def)
  have b: "example_store ''iris:v1'' = Some iris_info"
    by (simp add: example_store_def)
  show ?thesis
    using load_checks_module [where model_store = example_store and tg = "''net:v1''"
            and env = example_env and fs = example_fs, OF a]
          load_checks_module [where model_store = example_store and tg = "''iris:v1''"
            and env = example_env and fs = example_fs, OF b]
    by (simp add: adapter_module_def example_env_def example_fs_def os_path_join_def
        net_info_def iris_info_def)
qed

section \<open>Saving\<close>

text \<open>
  Claim C8, as the code has it: \<^verbatim>\<open>save\<close> raises NameError on its first line, whatever
  its arguments, because the module never binds the name \<^verbatim>\<open>sklearn\<close>; no framework
  context is built, nothing is registered, and the store and the files stay as they were.
\<close>

theorem save_raises_NameError:
  "save env name mdl md (model_store, fs) = (Inl (NameError ''sklearn''), model_store, fs)"
  by (rule save_raises)

text \<open>
  Claim C5, as the code has it: \<^verbatim>\<open>save\<close> returns no tag, so there is nothing that a
  following \<^verbatim>\<open>load\<close> could read back.
\<close>

theorem save_returns_no_tag: "fst (save env name mdl md w) \<noteq> Inr tg"
  by (simp add: save_raises)


text \<open>
  The \<^verbatim>\<open>with\<close> block taken by itself, for a framework context already built: when
  the store has opened a registration \<open>ctx\<close> and the dump to the file in its directory
  fails with \<open>e\<close>, the block raises \<open>e\<close> and the store is the one before, by the scope
  contract of the store.
\<close>

lemma save_registration_rolls_back:
  assumes "ModelStore_register_enter env model_store name = Inr ctx"
    and "joblib_dump env mdl (os_path_join (reg_path ctx) (SAVE_NAMESPACE env @ ''.pkl'')) fs
           = (Some e, fs')"
  shows "save_registration env name mdl md fc (model_store, fs)
           = (Inl e, model_store, fs')"
  using assms
  by (simp add: save_registration_def ModelStore_register_exit_def Let_def)

text \<open>
  With a codec that works, the same block commits: the tag is returned and resolves to
  a ModelInfo of this adapter afterwards.
\<close>

lemma save_registration_commits:
  assumes "ModelStore_register_enter env model_store name = Inr ctx"
    and "joblib_dump env mdl (os_path_join (reg_path ctx) (SAVE_NAMESPACE env @ ''.pkl'')) fs
           = (None, fs')"
  shows "save_registration env name mdl md fc (model_store, fs)
           = (Inr (reg_tag ctx),
              model_store(reg_tag ctx \<mapsto>
                \<lparr>tag = reg_tag ctx, module = adapter_module, path = reg_path ctx,
                 metadata = md, framework_context = fc\<rparr>),
              fs')"
  using assms
  by (simp add: save_registration_def ModelStore_register_exit_def Let_def)

text \<open>
  The block and \<^verbatim>\<open>load\<close> agree on the module name and on the file: what a
  successful registration wrote is what \<^verbatim>\<open>load\<close> of the new tag reads.
\<close>

lemma registration_then_load:
  assumes "ModelStore_register_enter env model_store name = Inr ctx"
    and "joblib_dump env mdl (os_path_join (reg_path ctx) (SAVE_NAMESPACE env @ ''.pkl'')) fs
           = (None, fs')"
    and "joblib_load env fs' (os_path_join (reg_path ctx) (SAVE_NAMESPACE env @ ''.pkl''))
           = Inr mdl"
    and "save_registration env name mdl md fc (model_store, fs) = (res, model_store', fs'')"
  shows "res = Inr (reg_tag ctx) \<and> load env (reg_tag ctx) model_store' fs'' = Inr mdl"
proof -
  from save_registration_commits [OF assms(1,2), of md fc] assms(4)
  have "res = Inr (reg_tag ctx)" and "fs'' = fs'"
    and "model_store' = model_store(reg_tag ctx \<mapsto>
           \<lparr>tag = reg_tag ctx, module = adapter_module, path = reg_path ctx,
            metadata = md, framework_context = fc\<rparr>)"
    by simp_all
  with assms(3) show ?thesis
    by (simp add: load_def get_model_info_def ModelStore_get_def)
qed

section \<open>Setting a replica up\<close>

text \<open>
  Claim C2, as the code has it: with an empty GPU list \<^verbatim>\<open>_setup\<close> raises IndexError
  at \<^verbatim>\<open>gpus[replica_id]\<close>, and with any quota at all it raises either that IndexError
  or the NameError of the unbound name \<^verbatim>\<open>model_file\<close>; no model is ever loaded.
\<close>

theorem SklearnRunner_setup_raises:
  "SklearnRunner_setup env (self\<lparr>resource_quota := (resource_quota self)\<lparr>gpus := []\<rparr>\<rparr>) fs
     = Inl IndexError
   \<and> (SklearnRunner_setup env self fs = Inl IndexError
      \<or> SklearnRunner_setup env self fs = Inl (NameError ''model_file''))"
  by (simp add: SklearnRunner_setup_def list_getitem_def load_global_model_file Let_def
      split: sum.splits)

section \<open>Running a batch\<close>

text \<open>
  What one call does to the run-time state, whether the replica has a model or not: the
  scope is entered first and left last, and leaving it puts back the setting that the
  scope object saved when it was built.
\<close>

lemma run_batch_runtime:
  "snd (SklearnRunner_run_batch self xs rt) =
     \<lparr>backend_and_jobs = old_backend_and_jobs (parallel_ctx self),
      events = events rt @ [Enter]
        @ (case model self of None \<Rightarrow> [] | Some m \<Rightarrow> [Inference (backend_and_jobs rt)])
        @ [Exit]\<rparr>"
  by (simp add: SklearnRunner_run_batch_def parallel_backend_enter_def
      parallel_backend_exit_def split: option.splits)

lemma run_batch_result:
  "fst (SklearnRunner_run_batch self xs rt) =
     (case model self of None \<Rightarrow> Inl (AttributeError ''_model'') | Some m \<Rightarrow> m xs)"
  by (simp add: SklearnRunner_run_batch_def Let_def split: option.splits prod.splits)

text \<open>
  Claim C3. On a replica that holds a predictor which maps every batch of at least one
  row to the batch of its rows' results, in order, \<^verbatim>\<open>run_batch\<close> on \<open>N \<ge> 1\<close> rows
  returns \<open>N\<close> results, the \<open>i\<close>-th one being the result of the \<open>i\<close>-th row.
\<close>

theorem run_batch_row_aligned:
  assumes "model self = Some m"
    and "\<And>xs. xs \<noteq> [] \<Longrightarrow> m xs = Inr (map f xs)"
    and "1 \<le> length input_data"
  shows "\<exists>out. fst (SklearnRunner_run_batch self input_data rt) = Inr out
           \<and> length out = length input_data
           \<and> (\<forall>i < length input_data. out ! i = f (input_data ! i))"
proof -
  from assms(3) have "input_data \<noteq> []" by auto
  with assms(1,2) have "fst (SklearnRunner_run_batch self input_data rt) = Inr (map f input_data)"
    by (simp add: run_batch_result)
  then show ?thesis by simp
qed

theorem run_batch_row_aligned_witness:
  "fst (SklearnRunner_run_batch (example_runner (Finite 2)) [5, 7, 11] idle) = Inr [10, 14, 22]"
proof -
  have a: "model (example_runner (Finite 2)) = Some double_rows"
    by (simp add: example_runner_def)
  have b: "xs \<noteq> [] \<Longrightarrow> double_rows xs = Inr (map (\<lambda>x. 2 * x) xs)" for xs
    by (simp add: double_rows_def)
  have c: "1 \<le> length [5, 7, 11 :: int]" by simp
  from run_batch_row_aligned [OF a b c, of idle]
  obtain out where o: "fst (SklearnRunner_run_batch (example_runner (Finite 2)) [5, 7, 11] idle)
        = Inr out" "length out = 3" "\<forall>i<3. out ! i = 2 * ([5, 7, 11] ! i)"
    by auto
  from o(3) have "out ! 0 = 10" "out ! 1 = 14" "out ! 2 = 22"
    by (simp_all add: numeral_3_eq_3)
  with o(2) have "out = [10, 14, 22]"
    by (cases out; simp; cases "tl out"; simp; cases "tl (tl out)"; simp)
  with o(1) show ?thesis by simp
qed

text \<open>
  Claim C7, as the code has it: the runner builds one scope object in \<^verbatim>\<open>__init__\<close>
  and enters that same object in every call. Built for a quota of two CPUs, it makes
  \<^verbatim>\<open>("threading", 2)\<close> the setting in force from the construction on; the first batch
  runs under it and leaving the scope removes it; the second batch enters and leaves the
  scope again, but its inference runs with no backend configured.
\<close>

theorem second_batch_runs_unscoped:
  "SklearnRunner_init example_env ''iris:v1'' \<lparr>cpu = Finite 2, gpus = []\<rparr> [] 0
       example_store idle
     = (Inr ((example_runner (Finite 2))\<lparr>model := None\<rparr>),
        \<lparr>backend_and_jobs = Some (''threading'', 2), events = []\<rparr>)
   \<and> events (two_batches (example_runner (Finite 2)) [5, 7] [11]
               \<lparr>backend_and_jobs = Some (''threading'', 2), events = []\<rparr>)
     = [Enter, Inference (Some (''threading'', 2)), Exit, Enter, Inference None, Exit]"
proof -
  have r: "float_round 2 = 2" by code_simp
  have "SklearnRunner_init example_env ''iris:v1'' \<lparr>cpu = Finite 2, gpus = []\<rparr> [] 0
       example_store idle
     = (Inr ((example_runner (Finite 2))\<lparr>model := None\<rparr>),
        \<lparr>backend_and_jobs = Some (''threading'', 2), events = []\<rparr>)"
    by (simp add: SklearnRunner_init_def get_model_info_def ModelStore_get_def
        example_store_def iris_info_def adapter_module_def num_concurrency_per_replica_def
        parallel_backend_init_def idle_def example_env_def os_path_join_def r
        example_runner_def)
  moreover have "events (two_batches (example_runner (Finite 2)) [5, 7] [11]
               \<lparr>backend_and_jobs = Some (''threading'', 2), events = []\<rparr>)
     = [Enter, Inference (Some (''threading'', 2)), Exit, Enter, Inference None, Exit]"
    by (simp add: two_batches_def run_batch_runtime example_runner_def)
  ultimately show ?thesis by simp
qed

end
